theory Spec2Isabelle
  imports Complex_Main "HOL-Library.Multiset"
begin

section \<open>Lec2Notes: the request layer and the retrieval-augmented pipeline\<close>

text \<open>
  A shallow embedding of \<^verbatim>\<open>app.py\<close> and \<^verbatim>\<open>rag_pipeline.py\<close>. The process-wide globals
  and the three database collections are one explicit state record; every endpoint and
  pipeline function takes the state and returns the new one next to its result. A Python
  exception is a value of type \<open>error\<close> on the left of a sum. Python strings are modelled
  as \<open>string\<close>; non-ASCII characters appear as their UTF-8 bytes.
\<close>

subsection \<open>Errors\<close>

text \<open>
  The exceptions the modelled code can raise: \<open>IndexError\<close> (subscript of an empty
  list), \<open>TypeError\<close> (subscript of \<^verbatim>\<open>None\<close>), \<open>RuntimeError\<close> (the vector store cannot
  read an index from disk), \<open>AssertionError\<close> (a search for zero neighbours),
  \<open>FormatError\<close> (a prompt template that does not format: Python's \<^verbatim>\<open>ValueError\<close>,
  \<^verbatim>\<open>KeyError\<close> or \<^verbatim>\<open>IndexError\<close> from the formatter), \<open>GenerationUnavailable\<close> (the model
  provider fails) and \<open>PromptsError\<close> (a failure inside the prompt catalogue). The constructor
  \<open>IndexNotFound\<close> is the typed error the specification names; no modelled function
  produces it.
\<close>

datatype error =
    IndexError
  | TypeError
  | RuntimeError
  | AssertionError
  | FormatError
  | GenerationUnavailable
  | PromptsError
  | IndexNotFound

subsection \<open>The format catalogue (\<^verbatim>\<open>class NotesFormat(str, Enum)\<close>)\<close>

datatype NotesFormat =
    type_1 | type_2 | type_3 | type_4 | type_5 | type_6 | type_7 | type_8 | type_9
  | type_10 | type_11 | type_12 | type_13 | type_14 | type_15 | type_16 | type_17

text \<open>\<^verbatim>\<open>NotesFormat.__members__\<close>: member name to member.\<close>

definition NotesFormat_members :: "string \<Rightarrow> NotesFormat option" where
  "NotesFormat_members = map_of
     [(''type_1'', type_1), (''type_2'', type_2), (''type_3'', type_3), (''type_4'', type_4),
      (''type_5'', type_5), (''type_6'', type_6), (''type_7'', type_7), (''type_8'', type_8),
      (''type_9'', type_9), (''type_10'', type_10), (''type_11'', type_11),
      (''type_12'', type_12), (''type_13'', type_13), (''type_14'', type_14),
      (''type_15'', type_15), (''type_16'', type_16), (''type_17'', type_17)]"

text \<open>\<^verbatim>\<open>format_enum.value\<close>: the label of a member.\<close>

fun NotesFormat_value :: "NotesFormat \<Rightarrow> string" where
  "NotesFormat_value type_1 = ''Detailed Structured Study Notes''"
| "NotesFormat_value type_2 = ''Conceptual Mind Map Style''"
| "NotesFormat_value type_3 = ''Step-by-Step Explanation''"
| "NotesFormat_value type_4 = ''Comparison Table''"
| "NotesFormat_value type_5 = ''Key Terms and Definitions''"
| "NotesFormat_value type_6 = ''Flashcard Style''"
| "NotesFormat_value type_7 = ''Formula + Concept Sheet''"
| "NotesFormat_value type_8 = ''Topic Clusters''"
| "NotesFormat_value type_9 = ''Cause and Effect Notes''"
| "NotesFormat_value type_10 = ''Exam-Ready Highlights''"
| "NotesFormat_value type_11 = ''Practical Applications''"
| "NotesFormat_value type_12 = ''Pros and Cons''"
| "NotesFormat_value type_13 = ''Problem-Solution Format''"
| "NotesFormat_value type_14 = ''Explainer with Analogies''"
| "NotesFormat_value type_15 = ''Highlight + Expand''"
| "NotesFormat_value type_16 = ''Quick Review Cheat Sheet''"
| "NotesFormat_value type_17 = ''Custom Template''"

subsection \<open>Stored records and the program state\<close>

text \<open>
  The documents written by \<^verbatim>\<open>store_document\<close>, \<^verbatim>\<open>create_session\<close> and
  \<^verbatim>\<open>chat_with_transcript\<close>. The \<^verbatim>\<open>_id\<close> of a message is a fresh \<^verbatim>\<open>uuid4\<close> that nothing
  reads; it is left out. Timestamps are clock readings, modelled as natural numbers.
\<close>

record document =
  doc_id :: string
  doc_username :: string
  doc_title :: string
  doc_content_type :: string
  doc_content :: string
  doc_faiss_path :: string
  doc_chunk_size :: int
  doc_chunk_overlap :: int

record session =
  sess_id :: string
  sess_username :: string
  sess_document_id :: string

record message =
  msg_session_id :: string
  msg_role :: string
  msg_content :: string
  msg_timestamp :: nat

text \<open>An entry of the global dict \<^verbatim>\<open>selected_formats\<close>.\<close>

record selection =
  notes_format :: NotesFormat
  custom_prompt :: "string option"

text \<open>
  A saved vector index is the list of its chunk texts (\<^verbatim>\<open>page_content\<close>); the embedding
  vectors are represented by the distance function of the environment below.
  \<open>faiss_dir\<close> is the directory \<^verbatim>\<open>faiss/\<close> on disk: folder path to saved index.
\<close>

type_synonym index = "string list"

record state =
  documents_col :: "document list"
  sessions_col :: "session list"
  messages_col :: "message list"
  selected_formats :: "string \<rightharpoonup> selection"
  notes_download :: string
  faiss_dir :: "string \<rightharpoonup> index"

text \<open>Python truthiness of an optional string: \<^verbatim>\<open>None\<close> and \<^verbatim>\<open>""\<close> are falsy.\<close>

fun truthy :: "string option \<Rightarrow> bool" where
  "truthy None = False"
| "truthy (Some s) = (s \<noteq> [])"

subsection \<open>\<^verbatim>\<open>POST /formats\<close>\<close>

text \<open>The JSON bodies the endpoints return.\<close>

datatype response =
    ErrorResponse string
  | FormatSelected string "string option"
  | NotesResponse string
  | AnswerResponse string

definition select_formats ::
  "state \<Rightarrow> string \<Rightarrow> string \<Rightarrow> string option \<Rightarrow> response \<times> state" where
  "select_formats st session_id notes_format_key custom_format =
     (case NotesFormat_members notes_format_key of
        None \<Rightarrow> (ErrorResponse (''Invalid format: '' @ notes_format_key), st)
      | Some format_enum \<Rightarrow>
          if format_enum = type_17 \<and> \<not> truthy custom_format
          then (ErrorResponse ''Custom format is required when using Custom Template'', st)
          else
            let custom_format' = (if format_enum \<noteq> type_17 then None else custom_format)
            in (FormatSelected (NotesFormat_value format_enum) custom_format',
                st\<lparr>selected_formats := (selected_formats st)(session_id \<mapsto>
                     \<lparr>notes_format = format_enum, custom_prompt = custom_format'\<rparr>)\<rparr>))"

subsection \<open>The external services\<close>

text \<open>
  What the pipeline calls but does not implement. \<open>get_llm t\<close> is \<^verbatim>\<open>get_llm(temperature)\<close>:
  building the client may fail, and the client it returns maps a prompt to the
  \<^verbatim>\<open>.content\<close> of the completion or fails. \<open>distance q c\<close> is the score the vector store
  gives chunk \<open>c\<close> for query \<open>q\<close> (the L2 distance of their embeddings, lower is closer),
  a real number here. \<open>get_prompt_template\<close> is the function of that name of the module
  \<^verbatim>\<open>prompts\<close>, which the sources do not include. \<open>library_format kw t\<close> is what the
  template formatter of the library returns for template \<open>t\<close> and arguments \<open>kw\<close>; the
  model consults it only for templates outside the fragment it formats itself.
  \<open>now_human\<close> and \<open>now_assistant\<close> are the two readings of \<^verbatim>\<open>datetime.now()\<close> taken, in
  this order, while one chat call builds the argument of \<^verbatim>\<open>insert_many\<close>; nothing
  relates them to each other or to the readings of another call.
\<close>

datatype lc_message = HumanMessage string | SystemMessage string | AIMessage string

datatype llm_input = PromptText string | PromptMessages "lc_message list"

record env =
  get_llm :: "real \<Rightarrow> error + (llm_input \<Rightarrow> error + string)"
  distance :: "string \<Rightarrow> string \<Rightarrow> real"
  get_prompt_template :: "NotesFormat \<Rightarrow> string option \<Rightarrow> error + string"
  library_format :: "(string \<times> string) list \<Rightarrow> string \<Rightarrow> error + string"
  now_human :: nat
  now_assistant :: nat

subsection \<open>Prompt templates\<close>

text \<open>
  Formatting of an f-string template with keyword arguments \<open>kw\<close>, as \<^verbatim>\<open>str.format\<close> and
  the prompt templates of the chat library do it. The scanner \<open>format_fstring\<close> covers the
  plain fragment exactly: literal text, \<^verbatim>\<open>{{\<close> and \<^verbatim>\<open>}}\<close> for literal braces, and
  \<^verbatim>\<open>{name}\<close> with a name of letters, digits and underscores, which is replaced by the
  argument of that name (the inserted text is not scanned again). There an unmatched
  brace or a name that is not an argument raises. Its second argument is the field name
  read so far (\<open>None\<close> outside a field). A field with anything else in it (empty, or with
  a conversion, a format specification, an attribute or an index) is \<open>Outside\<close> the
  fragment: for such a template \<open>format_template\<close> returns whatever the library returns,
  the \<open>library_format\<close> of the environment.
\<close>

datatype formatted = Formatted string | Raises | Outside

fun emit :: "string \<Rightarrow> formatted \<Rightarrow> formatted" where
  "emit s (Formatted r) = Formatted (s @ r)"
| "emit s Raises = Raises"
| "emit s Outside = Outside"

definition name_char :: "char \<Rightarrow> bool" where
  "name_char c =
     (c \<in> set ''abcdefghijklmnopqrstuvwxyzABCDEFGHIJKLMNOPQRSTUVWXYZ0123456789_'')"

fun format_fstring :: "(string \<times> string) list \<Rightarrow> string option \<Rightarrow> string \<Rightarrow> formatted" where
  "format_fstring kw None [] = Formatted []"
| "format_fstring kw (Some f) [] = Raises"
| "format_fstring kw None (c # cs) =
     (if c = CHR ''{'' then
        (case cs of
           [] \<Rightarrow> Raises
         | d # ds \<Rightarrow> if d = CHR ''{'' then emit [c] (format_fstring kw None ds)
                     else format_fstring kw (Some []) cs)
      else if c = CHR ''}'' then
        (case cs of
           [] \<Rightarrow> Raises
         | d # ds \<Rightarrow> if d = CHR ''}'' then emit [c] (format_fstring kw None ds)
                     else Raises)
      else emit [c] (format_fstring kw None cs))"
| "format_fstring kw (Some f) (c # cs) =
     (if c = CHR ''}'' then
        (if f = [] then Outside
         else (case map_of kw f of
                 None \<Rightarrow> Raises
               | Some v \<Rightarrow> emit v (format_fstring kw None cs)))
      else if name_char c then format_fstring kw (Some (f @ [c])) cs
      else Outside)"

definition format_template :: "env \<Rightarrow> (string \<times> string) list \<Rightarrow> string \<Rightarrow> error + string" where
  "format_template ev kw t =
     (case format_fstring kw None t of
        Formatted r \<Rightarrow> Inr r
      | Raises \<Rightarrow> Inl FormatError
      | Outside \<Rightarrow> library_format ev kw t)"

text \<open>\<^verbatim>\<open>m.type\<close> and \<^verbatim>\<open>m.content\<close> of a chat message.\<close>

fun message_type :: "lc_message \<Rightarrow> string" where
  "message_type (HumanMessage c) = ''human''"
| "message_type (SystemMessage c) = ''system''"
| "message_type (AIMessage c) = ''ai''"

fun message_content :: "lc_message \<Rightarrow> string" where
  "message_content (HumanMessage c) = c"
| "message_content (SystemMessage c) = c"
| "message_content (AIMessage c) = c"

text \<open>
  \<^verbatim>\<open>ChatPromptTemplate.from_messages\<close> on \<^verbatim>\<open>(role, template)\<close> pairs followed by
  \<^verbatim>\<open>format_messages\<close>: the role string picks the message class, the template is formatted
  into its content. An unknown role raises.
\<close>

definition create_message :: "string \<Rightarrow> string \<Rightarrow> error + lc_message" where
  "create_message r c =
     (if r = ''human'' \<or> r = ''user'' then Inr (HumanMessage c)
      else if r = ''ai'' \<or> r = ''assistant'' then Inr (AIMessage c)
      else if r = ''system'' then Inr (SystemMessage c)
      else Inl FormatError)"

fun format_messages ::
  "env \<Rightarrow> (string \<times> string) list \<Rightarrow> (string \<times> string) list \<Rightarrow> error + lc_message list" where
  "format_messages ev kw [] = Inr []"
| "format_messages ev kw ((r, t) # ms) =
     (case format_template ev kw t of
        Inl e \<Rightarrow> Inl e
      | Inr c \<Rightarrow>
          (case create_message r c of
             Inl e \<Rightarrow> Inl e
           | Inr m \<Rightarrow>
               (case format_messages ev kw ms of
                  Inl e \<Rightarrow> Inl e
                | Inr rest \<Rightarrow> Inr (m # rest))))"

subsection \<open>Retrieval\<close>

text \<open>
  \<^verbatim>\<open>vectordb.as_retriever(search_kwargs={"k": k})\<close>: the loaded index and the number of
  chunks to return.
\<close>

record retriever =
  vectorstore :: index
  search_k :: nat

text \<open>
  \<^verbatim>\<open>vectorstore.similarity_search_with_score(query, k)\<close> of a flat L2 index: every chunk with
  its distance to the query, closest first, the first \<open>k\<close> of them; the index library
  asserts \<open>k > 0\<close> and raises otherwise. The search is a library call; this is its
  documented behaviour. Distances are real numbers, so a score that is not a number is
  outside the model.
\<close>

definition similarity_search_with_score ::
  "env \<Rightarrow> index \<Rightarrow> string \<Rightarrow> nat \<Rightarrow> error + (string \<times> real) list" where
  "similarity_search_with_score ev idx query k =
     (if k = 0 then Inl AssertionError
      else Inr (take k (sort_key snd (map (\<lambda>c. (c, distance ev query c)) idx))))"

text \<open>\<^verbatim>\<open>retriever.invoke(query)\<close>: the chunks of the search, without scores.\<close>

definition retriever_invoke :: "env \<Rightarrow> retriever \<Rightarrow> string \<Rightarrow> error + string list" where
  "retriever_invoke ev r query =
     (case similarity_search_with_score ev (vectorstore r) query (search_k r) of
        Inl e \<Rightarrow> Inl e
      | Inr docs_with_scores \<Rightarrow> Inr (map fst docs_with_scores))"

text \<open>\<^verbatim>\<open>sep.join(parts)\<close>.\<close>

fun join :: "string \<Rightarrow> string list \<Rightarrow> string" where
  "join sep [] = []"
| "join sep [x] = x"
| "join sep (x # y # ys) = x @ sep @ join sep (y # ys)"

text \<open>
  \<^verbatim>\<open>load_retriever\<close>: \<^verbatim>\<open>find_one\<close> returns \<^verbatim>\<open>None\<close> when no record matches, and
  \<^verbatim>\<open>doc["faiss_path"]\<close> then raises \<^verbatim>\<open>TypeError\<close>; \<^verbatim>\<open>FAISS.load_local\<close> raises when the folder
  holds no index.
\<close>

definition load_retriever :: "state \<Rightarrow> string \<Rightarrow> string \<Rightarrow> nat \<Rightarrow> error + retriever" where
  "load_retriever st username document_id k =
     (case find (\<lambda>d. doc_id d = document_id \<and> doc_username d = username) (documents_col st) of
        None \<Rightarrow> Inl TypeError
      | Some doc \<Rightarrow>
          (case faiss_dir st (doc_faiss_path doc) of
             None \<Rightarrow> Inl RuntimeError
           | Some vectordb \<Rightarrow> Inr \<lparr>vectorstore = vectordb, search_k = k\<rparr>))"

subsection \<open>\<^verbatim>\<open>generate_notes\<close>\<close>

definition generate_notes ::
  "env \<Rightarrow> state \<Rightarrow> string \<Rightarrow> string \<Rightarrow> string \<Rightarrow> int \<Rightarrow> int \<Rightarrow> nat \<Rightarrow> real \<Rightarrow> error + string" where
  "generate_notes ev st document_id username prompt_template
                  chunk_size chunk_overlap retriever_k llm_temperature =
     (case load_retriever st username document_id retriever_k of
        Inl e \<Rightarrow> Inl e
      | Inr retriever \<Rightarrow>
          (case get_llm ev llm_temperature of
             Inl e \<Rightarrow> Inl e
           | Inr llm \<Rightarrow>
               (case retriever_invoke ev retriever ''Generate structured lecture notes.'' of
                  Inl e \<Rightarrow> Inl e
                | Inr docs \<Rightarrow>
                    let context = join ''\<newline>\<newline>'' docs
                    in (case format_template ev [(''context'', context)] prompt_template of
                          Inl e \<Rightarrow> Inl e
                        | Inr prompt \<Rightarrow> llm (PromptText prompt)))))"

subsection \<open>\<^verbatim>\<open>chat_with_transcript\<close>\<close>

text \<open>
  \<^verbatim>\<open>messages_col.find({"session_id": session_id}).sort("timestamp", 1)\<close>. The store
  promises no order among messages with equal timestamps; the model returns them in
  insertion order there. What is stated below about the order of a session's messages
  is stated for timestamps that differ.
\<close>

definition chat_docs :: "state \<Rightarrow> string \<Rightarrow> message list" where
  "chat_docs st session_id =
     sort_key msg_timestamp (filter (\<lambda>m. msg_session_id m = session_id) (messages_col st))"

text \<open>The loop that builds \<^verbatim>\<open>chat_history\<close>.\<close>

definition chat_history :: "state \<Rightarrow> string \<Rightarrow> lc_message list" where
  "chat_history st session_id =
     map (\<lambda>msg. if msg_role msg = ''human'' then HumanMessage (msg_content msg)
                else SystemMessage (msg_content msg))
         (chat_docs st session_id)"

definition SIMILARITY_THRESHOLD :: real where
  "SIMILARITY_THRESHOLD = 1.0"

definition is_out_of_context :: "real \<Rightarrow> bool" where
  "is_out_of_context top_score = (top_score > SIMILARITY_THRESHOLD)"

text \<open>The two \<^verbatim>\<open>messages_col.insert_many\<close> calls: the user turn, then the assistant turn.\<close>

definition insert_turns :: "env \<Rightarrow> state \<Rightarrow> string \<Rightarrow> string \<Rightarrow> string \<Rightarrow> state" where
  "insert_turns ev st session_id user_query answer =
     st\<lparr>messages_col := messages_col st @
          [\<lparr>msg_session_id = session_id, msg_role = ''human'',
            msg_content = user_query, msg_timestamp = now_human ev\<rparr>,
           \<lparr>msg_session_id = session_id, msg_role = ''assistant'',
            msg_content = answer, msg_timestamp = now_assistant ev\<rparr>]\<rparr>"

text \<open>The out-of-context branch: the messages sent, the disclaimer, the two inserts.\<close>

definition general_messages :: "string option \<Rightarrow> lc_message list \<Rightarrow> string \<Rightarrow> lc_message list" where
  "general_messages notes_context history user_query =
     (case notes_context of
        None \<Rightarrow> []
      | Some n \<Rightarrow> if n \<noteq> [] then [SystemMessage (''Lecture notes context:\<newline>'' @ n)] else [])
     @ history @ [HumanMessage user_query]"

definition general_final_response :: "string \<Rightarrow> string" where
  "general_final_response general_response =
     ''\<newline>'' @ [CHR 0xE2, CHR 0x9A, CHR 0xA0, CHR 0xEF, CHR 0xB8, CHR 0x8F]
     @ '' Note: This question is outside the scope of the uploaded document. ''
     @ ''The answer below is generated using general knowledge.\<newline>\<newline>''
     @ general_response @ ''\<newline>''"

definition fallback_answer ::
  "env \<Rightarrow> state \<Rightarrow> (llm_input \<Rightarrow> error + string) \<Rightarrow> string \<Rightarrow> string \<Rightarrow> string option
     \<Rightarrow> (error + string) \<times> state" where
  "fallback_answer ev st llm user_query session_id notes_context =
     (case llm (PromptMessages
                 (general_messages notes_context (chat_history st session_id) user_query)) of
        Inl e \<Rightarrow> (Inl e, st)
      | Inr general_response \<Rightarrow>
          (Inr (general_final_response general_response),
           insert_turns ev st session_id user_query (general_final_response general_response)))"

text \<open>The grounded branch: the prompt template, its formatting, the call, the two inserts.\<close>

definition formatted_prompt ::
  "env \<Rightarrow> string \<Rightarrow> lc_message list \<Rightarrow> string \<Rightarrow> error + lc_message list" where
  "formatted_prompt ev context history user_query =
     format_messages ev [(''context'', context), (''question'', user_query)]
       ([(''system'', ''Answer strictly using the provided context.''),
         (''system'', ''Context:\<newline>{context}'')]
        @ map (\<lambda>m. (message_type m, message_content m)) history
        @ [(''human'', ''{question}'')])"

definition rag_answer ::
  "env \<Rightarrow> state \<Rightarrow> (llm_input \<Rightarrow> error + string) \<Rightarrow> string \<Rightarrow> string \<Rightarrow> string
     \<Rightarrow> (error + string) \<times> state" where
  "rag_answer ev st llm user_query session_id context =
     (case formatted_prompt ev context (chat_history st session_id) user_query of
        Inl e \<Rightarrow> (Inl e, st)
      | Inr prompt \<Rightarrow>
          (case llm (PromptMessages prompt) of
             Inl e \<Rightarrow> (Inl e, st)
           | Inr response \<Rightarrow>
               (Inr response, insert_turns ev st session_id user_query response)))"

text \<open>
  The whole call. \<^verbatim>\<open>docs_with_scores[0][1]\<close> raises \<^verbatim>\<open>IndexError\<close> on an empty search
  result.
\<close>

definition chat_with_transcript ::
  "env \<Rightarrow> state \<Rightarrow> string \<Rightarrow> string \<Rightarrow> retriever \<Rightarrow> string option \<Rightarrow> (error + string) \<times> state" where
  "chat_with_transcript ev st user_query session_id retriever notes_context =
     (case get_llm ev 0.7 of
        Inl e \<Rightarrow> (Inl e, st)
      | Inr llm \<Rightarrow>
          (case similarity_search_with_score ev (vectorstore retriever) user_query 3 of
             Inl e \<Rightarrow> (Inl e, st)
           | Inr [] \<Rightarrow> (Inl IndexError, st)
           | Inr ((top_doc, top_score) # others) \<Rightarrow>
               let context = join ''\<newline>\<newline>''
                     (map fst ((top_doc, top_score) # others))
               in if is_out_of_context top_score
                  then fallback_answer ev st llm user_query session_id notes_context
                  else rag_answer ev st llm user_query session_id context))"

subsection \<open>\<^verbatim>\<open>POST /generate-notes\<close> and \<^verbatim>\<open>POST /chat\<close>\<close>

definition generate_notes_endpoint :: "env \<Rightarrow> state \<Rightarrow> string \<Rightarrow> (error + response) \<times> state" where
  "generate_notes_endpoint ev st session_id =
     (case selected_formats st session_id of
        None \<Rightarrow> (Inr (ErrorResponse ''Please select a notes format first using /formats''), st)
      | Some data \<Rightarrow>
          (case find (\<lambda>s. sess_id s = session_id) (sessions_col st) of
             None \<Rightarrow> (Inr (ErrorResponse ''Invalid session''), st)
           | Some session \<Rightarrow>
               (case get_prompt_template ev (notes_format data) (custom_prompt data) of
                  Inl e \<Rightarrow> (Inl e, st)
                | Inr prompt_template \<Rightarrow>
                    (case generate_notes ev st (sess_document_id session) (sess_username session)
                            prompt_template 1000 200 5 0.7 of
                       Inl e \<Rightarrow> (Inl e, st)
                     | Inr notes \<Rightarrow>
                         (Inr (NotesResponse notes), st\<lparr>notes_download := notes\<rparr>)))))"

definition chat :: "env \<Rightarrow> state \<Rightarrow> string \<Rightarrow> string \<Rightarrow> (error + response) \<times> state" where
  "chat ev st session_id question =
     (case find (\<lambda>s. sess_id s = session_id) (sessions_col st) of
        None \<Rightarrow> (Inl TypeError, st)
      | Some session \<Rightarrow>
          (case load_retriever st (sess_username session) (sess_document_id session) 5 of
             Inl e \<Rightarrow> (Inl e, st)
           | Inr retriever \<Rightarrow>
               (case chat_with_transcript ev st question session_id retriever None of
                  (Inl e, st') \<Rightarrow> (Inl e, st')
                | (Inr answer, st') \<Rightarrow> (Inr (AnswerResponse answer), st'))))"

subsection \<open>Test doubles\<close>

text \<open>
  The state of a freshly started process with empty collections (the globals as
  \<^verbatim>\<open>app.py\<close> initialises them), and stand-ins for the external services: every chunk at
  distance \<open>dv\<close> from every query and a model whose answer shows the roles of the
  messages it was sent (or the prompt text itself); a model provider that always fails.
  Their formatter refuses every template outside the modelled fragment.
\<close>

definition initial_state :: state where
  "initial_state =
     \<lparr>documents_col = [], sessions_col = [], messages_col = [],
      selected_formats = Map.empty, notes_download = [], faiss_dir = Map.empty\<rparr>"

fun roles_llm :: "llm_input \<Rightarrow> error + string" where
  "roles_llm (PromptText p) = Inr p"
| "roles_llm (PromptMessages ms) = Inr (join '' '' (map message_type ms))"

definition roles_env :: "real \<Rightarrow> nat \<Rightarrow> nat \<Rightarrow> env" where
  "roles_env dv t1 t2 =
     \<lparr>get_llm = (\<lambda>t. Inr roles_llm), distance = (\<lambda>q c. dv),
      get_prompt_template = (\<lambda>f c. Inr ''Notes on: {context}''),
      library_format = (\<lambda>kw t. Inl FormatError),
      now_human = t1, now_assistant = t2\<rparr>"

definition failing_env :: "real \<Rightarrow> env" where
  "failing_env dv =
     \<lparr>get_llm = (\<lambda>t. Inr (\<lambda>p. Inl GenerationUnavailable)), distance = (\<lambda>q c. dv),
      get_prompt_template = (\<lambda>f c. Inr ''Notes on: {context}''),
      library_format = (\<lambda>kw t. Inl FormatError),
      now_human = 0, now_assistant = 0\<rparr>"

text \<open>
  States and arguments for the examples: a session with one earlier exchange, a
  retriever over a one-chunk index, a format selection made for a session id that
  no session has, and a document record whose index folder is gone.
\<close>

definition one_turn_state :: state where
  "one_turn_state =
     initial_state\<lparr>messages_col :=
       [\<lparr>msg_session_id = ''s1'', msg_role = ''human'',
         msg_content = ''hi'', msg_timestamp = 1\<rparr>,
        \<lparr>msg_session_id = ''s1'', msg_role = ''assistant'',
         msg_content = ''hello'', msg_timestamp = 2\<rparr>]\<rparr>"

definition one_chunk :: retriever where
  "one_chunk = \<lparr>vectorstore = [''chunk''], search_k = 5\<rparr>"

definition selected_only_state :: state where
  "selected_only_state =
     initial_state\<lparr>selected_formats :=
       [''s9'' \<mapsto> \<lparr>notes_format = type_1, custom_prompt = None\<rparr>]\<rparr>"

definition ann_document :: document where
  "ann_document =
     \<lparr>doc_id = ''d1'', doc_username = ''ann'', doc_title = ''t.txt'',
      doc_content_type = ''text/plain'', doc_content = ''text'',
      doc_faiss_path = ''faiss/ann_d1'', doc_chunk_size = 1000,
      doc_chunk_overlap = 200\<rparr>"

definition lost_index_state :: state where
  "lost_index_state = initial_state\<lparr>documents_col := [ann_document]\<rparr>"

subsection \<open>The chat prompt as the specification words it\<close>

text \<open>
  Following the specification's words, for comparison with \<open>formatted_prompt\<close>: one
  instruction message, one context message, the stored history replayed in its original
  roles (user turns as user messages, assistant turns as assistant messages) and order,
  then the new user message.
\<close>

definition spec_chat_prompt :: "string \<Rightarrow> message list \<Rightarrow> string \<Rightarrow> lc_message list" where
  "spec_chat_prompt context history user_query =
     [SystemMessage ''Answer strictly using the provided context.'',
      SystemMessage (''Context:\<newline>'' @ context)]
     @ map (\<lambda>m. if msg_role m = ''human'' then HumanMessage (msg_content m)
                 else AIMessage (msg_content m)) history
     @ [HumanMessage user_query]"

section \<open>Properties\<close>

subsection \<open>Format selection\<close>

lemma members_type_17: "NotesFormat_members ''type_17'' = Some type_17"
  by (simp add: NotesFormat_members_def)

text \<open>
  C5. Selecting the custom-template variant (member \<^verbatim>\<open>type_17\<close>) with empty custom text
  (absent or the empty string) returns the validation error and leaves the state as it
  was; selecting it with non-empty custom text succeeds and stores exactly that text
  under the session id.
\<close>

theorem select_formats_custom:
  "(\<not> truthy cf \<longrightarrow>
      select_formats st sid ''type_17'' cf =
        (ErrorResponse ''Custom format is required when using Custom Template'', st))
   \<and> (t \<noteq> [] \<longrightarrow>
      select_formats st sid ''type_17'' (Some t) =
        (FormatSelected ''Custom Template'' (Some t),
         st\<lparr>selected_formats := (selected_formats st)(sid \<mapsto>
              \<lparr>notes_format = type_17, custom_prompt = Some t\<rparr>)\<rparr>))"
  by (simp add: select_formats_def members_type_17 Let_def)

theorem select_formats_custom_witness:
  "\<not> truthy (Some '''')
   \<and> select_formats initial_state ''s1'' ''type_17'' (Some '''') =
        (ErrorResponse ''Custom format is required when using Custom Template'', initial_state)
   \<and> ''Be brief'' \<noteq> []
   \<and> select_formats initial_state ''s1'' ''type_17'' (Some ''Be brief'') =
        (FormatSelected ''Custom Template'' (Some ''Be brief''),
         initial_state\<lparr>selected_formats := (selected_formats initial_state)(''s1'' \<mapsto>
              \<lparr>notes_format = type_17, custom_prompt = Some ''Be brief''\<rparr>)\<rparr>)"
  using select_formats_custom [of "Some ''''" initial_state "''s1''" "''Be brief''"]
  by simp

text \<open>
  C9. When the selected member is any fixed-catalogue format (any member other than
  \<^verbatim>\<open>type_17\<close>), the custom text the caller sent is dropped: the selection stored for the
  session has custom text \<open>None\<close>, whatever \<open>cf\<close> was.
\<close>

theorem select_formats_fixed_discards_custom:
  assumes "NotesFormat_members k = Some f" and "f \<noteq> type_17"
  shows "select_formats st sid k cf =
           (FormatSelected (NotesFormat_value f) None,
            st\<lparr>selected_formats := (selected_formats st)(sid \<mapsto>
                 \<lparr>notes_format = f, custom_prompt = None\<rparr>)\<rparr>)"
  using assms by (simp add: select_formats_def Let_def)

lemma members_type_3: "NotesFormat_members ''type_3'' = Some type_3"
  by (simp add: NotesFormat_members_def)

theorem select_formats_fixed_discards_custom_witness:
  "NotesFormat_members ''type_3'' = Some type_3 \<and> type_3 \<noteq> type_17
   \<and> select_formats initial_state ''s1'' ''type_3'' (Some ''my own template'') =
           (FormatSelected ''Step-by-Step Explanation'' None,
            initial_state\<lparr>selected_formats := (selected_formats initial_state)(''s1'' \<mapsto>
                 \<lparr>notes_format = type_3, custom_prompt = None\<rparr>)\<rparr>)"
  using select_formats_fixed_discards_custom
          [of "''type_3''" type_3 initial_state "''s1''" "Some ''my own template''"]
  by (simp add: members_type_3)

subsection \<open>Note generation\<close>

text \<open>
  C10. The result of \<^verbatim>\<open>generate_notes\<close> does not depend on its \<^verbatim>\<open>chunk_size\<close> and
  \<^verbatim>\<open>chunk_overlap\<close> arguments: two calls that differ only in them, on the same state and
  services, return the same result (the same text or the same error).
\<close>

theorem generate_notes_ignores_chunking:
  "generate_notes ev st document_id username prompt_template cs co k t =
   generate_notes ev st document_id username prompt_template cs' co' k t"
  by (simp add: generate_notes_def)

text \<open>
  C8, as amended. \<^verbatim>\<open>POST /generate-notes\<close> answers with the error "Please select a notes
  format first using /formats" (the code's FormatNotSelected) whenever no format
  selection is stored under the session id, and with the error "Invalid session" (the
  code's SessionNotFound) when a selection is stored under the id but no session record
  has it. Both answers leave the state unchanged.
\<close>

theorem generate_notes_endpoint_guards:
  "(selected_formats st sid = None
      \<longrightarrow> generate_notes_endpoint ev st sid =
           (Inr (ErrorResponse ''Please select a notes format first using /formats''), st))
   \<and> (selected_formats st sid \<noteq> None \<and> find (\<lambda>s. sess_id s = sid) (sessions_col st) = None
      \<longrightarrow> generate_notes_endpoint ev st sid = (Inr (ErrorResponse ''Invalid session''), st))"
  by (auto simp: generate_notes_endpoint_def)

theorem generate_notes_endpoint_guards_witness:
  "selected_formats initial_state ''s9'' = None
   \<and> generate_notes_endpoint (roles_env 0 0 0) initial_state ''s9'' =
           (Inr (ErrorResponse ''Please select a notes format first using /formats''), initial_state)
   \<and> selected_formats selected_only_state ''s9'' \<noteq> None
   \<and> find (\<lambda>s. sess_id s = ''s9'') (sessions_col selected_only_state) = None
   \<and> generate_notes_endpoint (roles_env 0 0 0) selected_only_state ''s9'' =
           (Inr (ErrorResponse ''Invalid session''), selected_only_state)"
  using generate_notes_endpoint_guards
          [where st = initial_state and sid = "''s9''" and ev = "roles_env 0 0 0"]
        generate_notes_endpoint_guards
          [where st = selected_only_state and sid = "''s9''" and ev = "roles_env 0 0 0"]
  by (simp add: initial_state_def selected_only_state_def)

text \<open>
  The claim as stated fails for a session id that is unknown and has no format selection:
  the format check comes first, so the answer is the format error, not "Invalid session".
\<close>

theorem unknown_session_counterexample:
  "find (\<lambda>s. sess_id s = ''s9'') (sessions_col initial_state) = None
   \<and> generate_notes_endpoint (roles_env 0 0 0) initial_state ''s9'' =
        (Inr (ErrorResponse ''Please select a notes format first using /formats''), initial_state)
   \<and> generate_notes_endpoint (roles_env 0 0 0) initial_state ''s9'' \<noteq>
        (Inr (ErrorResponse ''Invalid session''), initial_state)"
  by (simp add: generate_notes_endpoint_def initial_state_def)

subsection \<open>Loading an index\<close>

text \<open>
  C7, as amended. Loading the index for an (owner, document id) pair fails with
  \<open>TypeError\<close> when no document record matches the pair, and with the vector store's
  \<open>RuntimeError\<close> when the record exists but its folder holds no index. Neither is a typed
  IndexNotFound.
\<close>

theorem load_retriever_missing:
  "(find (\<lambda>d. doc_id d = document_id \<and> doc_username d = username) (documents_col st) = None
      \<longrightarrow> load_retriever st username document_id k = Inl TypeError)
   \<and> (find (\<lambda>d. doc_id d = document_id \<and> doc_username d = username) (documents_col st) = Some doc
        \<and> faiss_dir st (doc_faiss_path doc) = None
      \<longrightarrow> load_retriever st username document_id k = Inl RuntimeError)"
  by (simp add: load_retriever_def)

theorem load_retriever_missing_witness:
  "find (\<lambda>d. doc_id d = ''d1'' \<and> doc_username d = ''ann'') (documents_col initial_state) = None
   \<and> load_retriever initial_state ''ann'' ''d1'' 5 = Inl TypeError
   \<and> find (\<lambda>d. doc_id d = ''d1'' \<and> doc_username d = ''ann'') (documents_col lost_index_state)
       = Some ann_document
   \<and> faiss_dir lost_index_state (doc_faiss_path ann_document) = None
   \<and> load_retriever lost_index_state ''ann'' ''d1'' 5 = Inl RuntimeError"
  using load_retriever_missing
          [where st = initial_state and username = "''ann''" and document_id = "''d1''" and k = 5]
        load_retriever_missing
          [where st = lost_index_state and username = "''ann''" and document_id = "''d1''" and k = 5
             and doc = ann_document]
  by (simp add: initial_state_def lost_index_state_def ann_document_def)

text \<open>With no document stored, the load fails with \<open>TypeError\<close>, not IndexNotFound.\<close>

theorem index_not_found_counterexample:
  "load_retriever initial_state ''ann'' ''d1'' 5 = Inl TypeError
   \<and> load_retriever initial_state ''ann'' ''d1'' 5 \<noteq> Inl IndexNotFound"
  by (simp add: load_retriever_def initial_state_def)

subsection \<open>Retrieval on small and empty indexes\<close>

lemma similarity_search_positive:
  "0 < k \<Longrightarrow> similarity_search_with_score ev idx q k =
     Inr (take k (sort_key snd (map (\<lambda>c. (c, distance ev q c)) idx)))"
  by (simp add: similarity_search_with_score_def)

text \<open>
  The two callers. The note path accepts an empty search result: its context is the
  empty string. The chat path reads the top score of the result, which raises
  \<open>IndexError\<close> when the result is empty; that is the subscript after the search, not
  the search.
\<close>

lemma generate_notes_empty_index:
  assumes "load_retriever st u d k = Inr \<lparr>vectorstore = [], search_k = k\<rparr>"
    and "get_llm ev t = Inr llm" and "0 < k"
  shows "generate_notes ev st d u tpl cs co k t =
           (case format_template ev [(''context'', [])] tpl of
              Inl e \<Rightarrow> Inl e
            | Inr prompt \<Rightarrow> llm (PromptText prompt))"
  using assms
  by (simp add: generate_notes_def retriever_invoke_def similarity_search_positive)

lemma chat_empty_result:
  "chat_with_transcript ev st q sid \<lparr>vectorstore = [], search_k = k\<rparr> nc =
     (case get_llm ev 0.7 of
        Inl e \<Rightarrow> (Inl e, st)
      | Inr llm \<Rightarrow> (Inl IndexError, st))"
  by (simp add: chat_with_transcript_def similarity_search_positive split: sum.splits)

text \<open>
  C4. A top-\<open>k\<close> search with \<open>k\<close> greater than the chunk count of the index returns a
  result, not an error, and the result has at most as many entries as the index has
  chunks. Against the empty index, whose chunk count is 0, every such search (every
  \<open>k\<close> of at least 1) returns the empty result, not an error; so do the two searches
  the program makes, the top-3 search of the chat path and the top-5 retrieval of the
  note path.
\<close>

theorem retrieval_capped:
  "(length idx < k \<longrightarrow>
      (\<exists>res. similarity_search_with_score ev idx q k = Inr res \<and> length res \<le> length idx))
   \<and> (0 < k \<longrightarrow> similarity_search_with_score ev [] q k = Inr [])
   \<and> similarity_search_with_score ev [] q 3 = Inr []
   \<and> retriever_invoke ev \<lparr>vectorstore = [], search_k = 5\<rparr> q = Inr []"
  by (simp add: similarity_search_with_score_def retriever_invoke_def)

theorem retrieval_capped_witness:
  "length [''a'', ''b''] < (3::nat)
   \<and> (\<exists>res. similarity_search_with_score (roles_env 2 5 6) [''a'', ''b''] ''q'' 3 = Inr res
            \<and> length res \<le> length [''a'', ''b''])
   \<and> (0::nat) < 3
   \<and> similarity_search_with_score (roles_env 2 5 6) [] ''q'' 3 = Inr []"
  using retrieval_capped [where idx = "[''a'', ''b'']" and k = 3 and ev = "roles_env 2 5 6"
                            and q = "''q''"]
  by simp

subsection \<open>Out-of-context classification\<close>

lemma chat_with_transcript_branches:
  assumes "get_llm ev 0.7 = Inr llm"
    and "similarity_search_with_score ev (vectorstore r) q 3 = Inr ((d, s) # rest)"
  shows "chat_with_transcript ev st q sid r nc =
           (if s > 1 then fallback_answer ev st llm q sid nc
            else rag_answer ev st llm q sid (join ''\<newline>\<newline>'' (d # map fst rest)))"
  using assms
  by (simp add: chat_with_transcript_def is_out_of_context_def SIMILARITY_THRESHOLD_def)

lemma roles_env_llm: "get_llm (roles_env dv ta tb) x = Inr roles_llm"
  by (simp add: roles_env_def)

lemma roles_env_search:
  "similarity_search_with_score (roles_env dv ta tb) (vectorstore one_chunk) q 3
     = Inr [(''chunk'', dv)]"
  by (simp add: similarity_search_with_score_def roles_env_def one_chunk_def)

text \<open>
  C1. In a chat call whose search returns a top-1 result with score \<open>s\<close>, the query is
  classified out-of-context exactly when \<open>s > 1.0\<close>: the call then takes the
  general-knowledge branch, and otherwise the grounded branch. The score \<open>1.0\<close> itself is
  in-context.
\<close>

theorem out_of_context_iff:
  assumes "get_llm ev 0.7 = Inr llm"
    and "similarity_search_with_score ev (vectorstore r) q 3 = Inr ((d, s) # rest)"
  shows "(is_out_of_context s \<longleftrightarrow> s > 1.0)
       \<and> \<not> is_out_of_context 1.0
       \<and> chat_with_transcript ev st q sid r nc =
           (if s > 1.0 then fallback_answer ev st llm q sid nc
            else rag_answer ev st llm q sid (join ''\<newline>\<newline>'' (d # map fst rest)))"
  using chat_with_transcript_branches [OF assms]
  by (simp add: is_out_of_context_def SIMILARITY_THRESHOLD_def)

theorem out_of_context_iff_witness:
  "get_llm (roles_env 1 5 6) 0.7 = Inr roles_llm
   \<and> similarity_search_with_score (roles_env 1 5 6) (vectorstore one_chunk) ''q'' 3
       = Inr ((''chunk'', 1) # [])
   \<and> \<not> is_out_of_context 1
   \<and> chat_with_transcript (roles_env 1 5 6) initial_state ''q'' ''s1'' one_chunk None =
       rag_answer (roles_env 1 5 6) initial_state roles_llm ''q'' ''s1'' ''chunk''"
  using out_of_context_iff
          [OF roles_env_llm [where dv = 1 and ta = 5 and tb = 6]
              roles_env_search [where dv = 1 and ta = 5 and tb = 6 and q = "''q''"],
           where st = initial_state and sid = "''s1''" and nc = None]
  by (simp add: roles_env_llm roles_env_search)

subsection \<open>The grounded prompt\<close>

lemma format_fstring_plain:
  "CHR ''{'' \<notin> set t \<Longrightarrow> CHR ''}'' \<notin> set t \<Longrightarrow> format_fstring kw None t = Formatted t"
  by (induction t) auto

lemma format_template_plain:
  "CHR ''{'' \<notin> set t \<Longrightarrow> CHR ''}'' \<notin> set t \<Longrightarrow> format_template ev kw t = Inr t"
  by (simp add: format_template_def format_fstring_plain)

lemma create_message_same:
  "create_message (message_type m) (message_content m) = Inr m"
  by (cases m) (simp_all add: create_message_def)

lemma format_messages_history:
  assumes "\<forall>m \<in> set h. CHR ''{'' \<notin> set (message_content m)
                        \<and> CHR ''}'' \<notin> set (message_content m)"
  shows "format_messages ev kw (map (\<lambda>m. (message_type m, message_content m)) h @ rst) =
           (case format_messages ev kw rst of
              Inl e \<Rightarrow> Inl e
            | Inr ms \<Rightarrow> Inr (h @ ms))"
  using assms
  by (induction h) (auto simp: format_template_plain create_message_same split: sum.splits)

lemma format_context_template:
  "format_template ev [(''context'', c), (''question'', q)] ''Context:\<newline>{context}''
     = Inr (''Context:\<newline>'' @ c)"
  by (simp add: format_template_def name_char_def)

lemma format_question_template:
  "format_template ev [(''context'', c), (''question'', q)] ''{question}'' = Inr q"
  by (simp add: format_template_def name_char_def)

lemma format_instruction:
  "format_template ev kw ''Answer strictly using the provided context.''
     = Inr ''Answer strictly using the provided context.''"
  by (rule format_template_plain) simp_all

lemma formatted_prompt_plain:
  assumes "\<forall>m \<in> set h. CHR ''{'' \<notin> set (message_content m)
                        \<and> CHR ''}'' \<notin> set (message_content m)"
  shows "formatted_prompt ev c h q =
           Inr ([SystemMessage ''Answer strictly using the provided context.'',
                 SystemMessage (''Context:\<newline>'' @ c)] @ h @ [HumanMessage q])"
  unfolding formatted_prompt_def
  using format_messages_history
          [OF assms, of ev "[(''context'', c), (''question'', q)]" "[(''human'', ''{question}'')]"]
  by (simp add: format_context_template format_question_template format_instruction
                create_message_def)

lemma chat_history_content:
  assumes "\<forall>m \<in> set (chat_docs st sid).
             CHR ''{'' \<notin> set (msg_content m) \<and> CHR ''}'' \<notin> set (msg_content m)"
  shows "\<forall>m \<in> set (chat_history st sid).
             CHR ''{'' \<notin> set (message_content m) \<and> CHR ''}'' \<notin> set (message_content m)"
  using assms by (auto simp: chat_history_def)

lemma rag_answer_plain:
  assumes "\<forall>m \<in> set (chat_docs st sid).
             CHR ''{'' \<notin> set (msg_content m) \<and> CHR ''}'' \<notin> set (msg_content m)"
  shows "rag_answer ev st llm q sid c =
           (case llm (PromptMessages
                  ([SystemMessage ''Answer strictly using the provided context.'',
                    SystemMessage (''Context:\<newline>'' @ c)]
                   @ chat_history st sid @ [HumanMessage q])) of
              Inl e \<Rightarrow> (Inl e, st)
            | Inr a \<Rightarrow> (Inr a, insert_turns ev st sid q a))"
  by (simp add: rag_answer_def formatted_prompt_plain [OF chat_history_content [OF assms]])

lemma one_turn_docs:
  "chat_docs one_turn_state ''s1'' =
       [\<lparr>msg_session_id = ''s1'', msg_role = ''human'',
         msg_content = ''hi'', msg_timestamp = 1\<rparr>,
        \<lparr>msg_session_id = ''s1'', msg_role = ''assistant'',
         msg_content = ''hello'', msg_timestamp = 2\<rparr>]"
  by (simp add: chat_docs_def one_turn_state_def initial_state_def)

text \<open>
  C3, as amended. In an in-context chat call (top score at most \<open>1.0\<close>) on a session whose
  stored messages contain no brace characters, the model client is called with exactly
  this sequence: the instruction message, the context message, the stored history in
  timestamp order with every user turn as a user message and every other turn (the
  assistant's) as a system message, then the new user message.
\<close>

theorem grounded_prompt_sequence:
  assumes "get_llm ev 0.7 = Inr llm"
    and "similarity_search_with_score ev (vectorstore r) q 3 = Inr ((d, s) # rest)"
    and "s \<le> 1.0"
    and "\<forall>m \<in> set (chat_docs st sid).
           CHR ''{'' \<notin> set (msg_content m) \<and> CHR ''}'' \<notin> set (msg_content m)"
  shows "chat_with_transcript ev st q sid r nc =
           (case llm (PromptMessages
                  ([SystemMessage ''Answer strictly using the provided context.'',
                    SystemMessage (''Context:\<newline>'' @ join ''\<newline>\<newline>'' (d # map fst rest))]
                   @ map (\<lambda>m. if msg_role m = ''human'' then HumanMessage (msg_content m)
                               else SystemMessage (msg_content m)) (chat_docs st sid)
                   @ [HumanMessage q])) of
              Inl e \<Rightarrow> (Inl e, st)
            | Inr a \<Rightarrow> (Inr a, insert_turns ev st sid q a))"
proof -
  from assms(3) have "chat_with_transcript ev st q sid r nc =
      rag_answer ev st llm q sid (join ''\<newline>\<newline>'' (d # map fst rest))"
    by (simp add: chat_with_transcript_branches [OF assms(1,2)])
  then show ?thesis
    by (simp add: rag_answer_plain [OF assms(4)] chat_history_def)
qed

theorem grounded_prompt_sequence_witness:
  "get_llm (roles_env (1/2) 3 4) 0.7 = Inr roles_llm
   \<and> similarity_search_with_score (roles_env (1/2) 3 4) (vectorstore one_chunk) ''q'' 3
       = Inr ((''chunk'', 1/2) # [])
   \<and> (1/2 :: real) \<le> 1.0
   \<and> list_all (\<lambda>m. CHR ''{'' \<notin> set (msg_content m) \<and> CHR ''}'' \<notin> set (msg_content m))
        (chat_docs one_turn_state ''s1'')
   \<and> chat_with_transcript (roles_env (1/2) 3 4) one_turn_state ''q'' ''s1'' one_chunk None =
       (Inr ''system system human system human'',
        insert_turns (roles_env (1/2) 3 4) one_turn_state ''s1'' ''q''
          ''system system human system human'')"
proof -
  have h3: "(1/2 :: real) \<le> 1.0" by simp
  have h4: "\<forall>m \<in> set (chat_docs one_turn_state ''s1'').
           CHR ''{'' \<notin> set (msg_content m) \<and> CHR ''}'' \<notin> set (msg_content m)"
    by (simp add: one_turn_docs)
  show ?thesis
    using grounded_prompt_sequence
            [OF roles_env_llm [where dv = "1/2" and ta = 3 and tb = 4]
                roles_env_search [where dv = "1/2" and ta = 3 and tb = 4 and q = "''q''"] h3 h4,
             where nc = None] h4
    by (simp add: roles_env_llm roles_env_search one_turn_docs list_all_iff)
qed

text \<open>
  The claim as stated fails on a session with one earlier exchange: the stored assistant
  turn reaches the model as a system message, so the roles sent are system, system,
  human, system, human, where the original roles would give system, system, human,
  assistant, human.
\<close>

theorem original_roles_counterexample:
  "fst (chat_with_transcript (roles_env (1/2) 3 4) one_turn_state ''q'' ''s1'' one_chunk None)
     = Inr ''system system human system human''
   \<and> roles_llm (PromptMessages (spec_chat_prompt ''chunk'' (chat_docs one_turn_state ''s1'') ''q''))
     = Inr ''system system human ai human''
   \<and> formatted_prompt (roles_env (1/2) 3 4) ''chunk'' (chat_history one_turn_state ''s1'') ''q''
     \<noteq> Inr (spec_chat_prompt ''chunk'' (chat_docs one_turn_state ''s1'') ''q'')"
  by (simp add: chat_with_transcript_def roles_env_llm roles_env_search is_out_of_context_def
        SIMILARITY_THRESHOLD_def rag_answer_def formatted_prompt_def chat_history_def one_turn_docs
        create_message_def spec_chat_prompt_def format_template_def name_char_def)

subsection \<open>Conversation memory\<close>

lemma chat_error_unchanged:
  "chat_with_transcript ev st q sid r nc = (Inl e, st') \<Longrightarrow> st' = st"
  by (auto simp: chat_with_transcript_def fallback_answer_def rag_answer_def Let_def
           split: sum.splits list.splits if_splits)

lemma chat_success_state:
  "chat_with_transcript ev st q sid r nc = (Inr a, st') \<Longrightarrow> st' = insert_turns ev st sid q a"
  by (auto simp: chat_with_transcript_def fallback_answer_def rag_answer_def Let_def
           split: sum.splits list.splits if_splits)

lemma failing_env_llm:
  "get_llm (failing_env dv) x = Inr (\<lambda>p. Inl GenerationUnavailable)"
  by (simp add: failing_env_def)

text \<open>
  C6. If the model client fails on the prompt it is given, the chat call ends in an error
  and the state it leaves is the state it found: no user turn and no assistant turn has
  been added to the conversation memory.
\<close>

theorem failed_generation_keeps_memory:
  assumes "get_llm ev 0.7 = Inr llm" and "\<forall>p. llm p = Inl e"
  shows "\<exists>e'. chat_with_transcript ev st q sid r nc = (Inl e', st)"
  using assms
  by (auto simp: chat_with_transcript_def fallback_answer_def rag_answer_def Let_def
           split: sum.splits list.splits if_splits)

theorem failed_generation_keeps_memory_witness:
  "get_llm (failing_env 2) 0.7 = Inr (\<lambda>p. Inl GenerationUnavailable)
   \<and> (\<forall>p::llm_input.
         (\<lambda>p. Inl GenerationUnavailable :: error + string) p = Inl GenerationUnavailable)
   \<and> (\<exists>e'. chat_with_transcript (failing_env 2) one_turn_state ''q'' ''s1'' one_chunk None
              = (Inl e', one_turn_state))"
proof -
  have h2: "\<forall>p::llm_input.
      (\<lambda>p. Inl GenerationUnavailable :: error + string) p = Inl GenerationUnavailable"
    by simp
  show ?thesis
    using failed_generation_keeps_memory
            [OF failing_env_llm [where dv = 2] h2,
             where st = one_turn_state and q = "''q''" and sid = "''s1''" and r = one_chunk
               and nc = None]
    by (simp add: failing_env_llm)
qed

lemma chat_docs_two_calls:
  assumes "\<forall>m \<in> set (messages_col st). msg_session_id m \<noteq> sid"
  shows "chat_docs (insert_turns ev2 (insert_turns ev1 st sid q1 a1) sid q2 a2) sid =
     sort_key msg_timestamp
       [\<lparr>msg_session_id = sid, msg_role = ''human'',
         msg_content = q1, msg_timestamp = now_human ev1\<rparr>,
        \<lparr>msg_session_id = sid, msg_role = ''assistant'',
         msg_content = a1, msg_timestamp = now_assistant ev1\<rparr>,
        \<lparr>msg_session_id = sid, msg_role = ''human'',
         msg_content = q2, msg_timestamp = now_human ev2\<rparr>,
        \<lparr>msg_session_id = sid, msg_role = ''assistant'',
         msg_content = a2, msg_timestamp = now_assistant ev2\<rparr>]"
proof -
  have "filter (\<lambda>m. msg_session_id m = sid) (messages_col st) = []"
    using assms by (simp add: filter_empty_conv)
  then show ?thesis
    by (simp add: chat_docs_def insert_turns_def)
qed

lemma mset_map_sort_key:
  "mset (map f (sort_key k xs)) = mset (map f xs)"
proof -
  have "mset (map f (sort_key k xs)) = image_mset f (mset (sort_key k xs))" by simp
  also have "\<dots> = image_mset f (mset xs)" by (simp only: mset_sort)
  finally show ?thesis by simp
qed

text \<open>
  C2, as amended. Starting from a session with no stored messages, two consecutive
  successful chat calls with that session id, whichever branch each takes, leave exactly
  four messages for the session: the two queries as user turns and the two answers as
  assistant turns. They are read back in the order of their timestamps, and that is the
  call order (first query, first answer, second query, second answer) when the four
  clock readings strictly increase in call order.
\<close>

theorem two_calls_four_messages:
  assumes "\<forall>m \<in> set (messages_col st). msg_session_id m \<noteq> sid"
    and "chat_with_transcript ev1 st q1 sid r1 n1 = (Inr a1, st1)"
    and "chat_with_transcript ev2 st1 q2 sid r2 n2 = (Inr a2, st2)"
  shows "length (chat_docs st2 sid) = 4
       \<and> mset (map (\<lambda>m. (msg_role m, msg_content m)) (chat_docs st2 sid)) =
           {#(''human'', q1), (''assistant'', a1), (''human'', q2), (''assistant'', a2)#}
       \<and> sorted (map msg_timestamp (chat_docs st2 sid))
       \<and> (now_human ev1 < now_assistant ev1 \<and> now_assistant ev1 < now_human ev2
            \<and> now_human ev2 < now_assistant ev2 \<longrightarrow>
          map (\<lambda>m. (msg_role m, msg_content m)) (chat_docs st2 sid) =
            [(''human'', q1), (''assistant'', a1), (''human'', q2), (''assistant'', a2)])"
proof -
  have "st1 = insert_turns ev1 st sid q1 a1"
    using assms(2) by (rule chat_success_state)
  moreover have "st2 = insert_turns ev2 st1 sid q2 a2"
    using assms(3) by (rule chat_success_state)
  ultimately have docs: "chat_docs st2 sid =
     sort_key msg_timestamp
       [\<lparr>msg_session_id = sid, msg_role = ''human'',
         msg_content = q1, msg_timestamp = now_human ev1\<rparr>,
        \<lparr>msg_session_id = sid, msg_role = ''assistant'',
         msg_content = a1, msg_timestamp = now_assistant ev1\<rparr>,
        \<lparr>msg_session_id = sid, msg_role = ''human'',
         msg_content = q2, msg_timestamp = now_human ev2\<rparr>,
        \<lparr>msg_session_id = sid, msg_role = ''assistant'',
         msg_content = a2, msg_timestamp = now_assistant ev2\<rparr>]"
    using chat_docs_two_calls [OF assms(1)] by simp
  have len: "length (chat_docs st2 sid) = 4"
    by (simp only: docs length_sort) simp
  have bag: "mset (map (\<lambda>m. (msg_role m, msg_content m)) (chat_docs st2 sid)) =
           {#(''human'', q1), (''assistant'', a1), (''human'', q2), (''assistant'', a2)#}"
    by (simp only: docs mset_map_sort_key) simp
  have srt: "sorted (map msg_timestamp (chat_docs st2 sid))"
    by (simp only: docs sorted_sort_key)
  have ord: "map (\<lambda>m. (msg_role m, msg_content m)) (chat_docs st2 sid) =
            [(''human'', q1), (''assistant'', a1), (''human'', q2), (''assistant'', a2)]"
    if "now_human ev1 < now_assistant ev1" "now_assistant ev1 < now_human ev2"
       "now_human ev2 < now_assistant ev2"
    using that by (simp add: docs)
  from len bag srt ord show ?thesis by blast
qed

theorem two_calls_four_messages_witness:
  "messages_col initial_state = []
   \<and> chat_with_transcript (roles_env 2 10 20) initial_state ''q1'' ''s1'' one_chunk None =
        (Inr (general_final_response ''human''),
         insert_turns (roles_env 2 10 20) initial_state ''s1'' ''q1''
           (general_final_response ''human''))
   \<and> chat_with_transcript (roles_env (1/2) 30 40)
        (insert_turns (roles_env 2 10 20) initial_state ''s1'' ''q1''
           (general_final_response ''human''))
        ''q2'' ''s1'' one_chunk None =
        (Inr ''system system human system human'',
         insert_turns (roles_env (1/2) 30 40)
           (insert_turns (roles_env 2 10 20) initial_state ''s1'' ''q1''
              (general_final_response ''human''))
           ''s1'' ''q2'' ''system system human system human'')
   \<and> now_human (roles_env 2 10 20) < now_assistant (roles_env 2 10 20)
   \<and> now_assistant (roles_env 2 10 20) < now_human (roles_env (1/2) 30 40)
   \<and> now_human (roles_env (1/2) 30 40) < now_assistant (roles_env (1/2) 30 40)
   \<and> length (chat_docs
          (insert_turns (roles_env (1/2) 30 40)
            (insert_turns (roles_env 2 10 20) initial_state ''s1'' ''q1''
               (general_final_response ''human''))
            ''s1'' ''q2'' ''system system human system human'') ''s1'') = 4
   \<and> map (\<lambda>m. (msg_role m, msg_content m))
        (chat_docs
          (insert_turns (roles_env (1/2) 30 40)
            (insert_turns (roles_env 2 10 20) initial_state ''s1'' ''q1''
               (general_final_response ''human''))
            ''s1'' ''q2'' ''system system human system human'') ''s1'') =
        [(''human'', ''q1''), (''assistant'', general_final_response ''human''),
         (''human'', ''q2''), (''assistant'', ''system system human system human'')]"
proof -
  let ?e1 = "roles_env 2 10 20" and ?e2 = "roles_env (1/2) 30 40"
  let ?a1 = "general_final_response ''human''"
  let ?st1 = "insert_turns ?e1 initial_state ''s1'' ''q1'' ?a1"
  have h0: "messages_col initial_state = []"
    by (simp add: initial_state_def)
  have h1: "\<forall>m \<in> set (messages_col initial_state). msg_session_id m \<noteq> ''s1''"
    by (simp add: h0)
  have hist0: "chat_history initial_state ''s1'' = []"
    by (simp add: chat_history_def chat_docs_def initial_state_def)
  have h2: "chat_with_transcript ?e1 initial_state ''q1'' ''s1'' one_chunk None = (Inr ?a1, ?st1)"
    by (simp add: chat_with_transcript_def roles_env_llm roles_env_search is_out_of_context_def
          SIMILARITY_THRESHOLD_def fallback_answer_def general_messages_def hist0)
  have docs1: "chat_docs ?st1 ''s1'' =
     [\<lparr>msg_session_id = ''s1'', msg_role = ''human'',
       msg_content = ''q1'', msg_timestamp = 10\<rparr>,
      \<lparr>msg_session_id = ''s1'', msg_role = ''assistant'',
       msg_content = ?a1, msg_timestamp = 20\<rparr>]"
    by (simp add: chat_docs_def insert_turns_def initial_state_def roles_env_def)
  have plain: "CHR ''{'' \<notin> set ?a1 \<and> CHR ''}'' \<notin> set ?a1"
    by (simp add: general_final_response_def)
  have h4: "\<forall>m \<in> set (chat_docs ?st1 ''s1'').
           CHR ''{'' \<notin> set (msg_content m) \<and> CHR ''}'' \<notin> set (msg_content m)"
    using plain by (simp add: docs1)
  have "chat_with_transcript ?e2 ?st1 ''q2'' ''s1'' one_chunk None =
          rag_answer ?e2 ?st1 roles_llm ''q2'' ''s1'' ''chunk''"
    using chat_with_transcript_branches
            [OF roles_env_llm [where dv = "1/2" and ta = 30 and tb = 40]
                roles_env_search [where dv = "1/2" and ta = 30 and tb = 40 and q = "''q2''"],
             where nc = None]
    by simp
  then have h3: "chat_with_transcript ?e2 ?st1 ''q2'' ''s1'' one_chunk None =
        (Inr ''system system human system human'',
         insert_turns ?e2 ?st1 ''s1'' ''q2'' ''system system human system human'')"
    by (simp add: rag_answer_plain [OF h4] chat_history_def docs1)
  have h5: "now_human ?e1 < now_assistant ?e1" by (simp add: roles_env_def)
  have h6: "now_assistant ?e1 < now_human ?e2" by (simp add: roles_env_def)
  have h7: "now_human ?e2 < now_assistant ?e2" by (simp add: roles_env_def)
  from two_calls_four_messages [OF h1 h2 h3] h0 h2 h3 h5 h6 h7
  show ?thesis by blast
qed

text \<open>
  The claim as stated fails when the clock steps back between the calls: the second
  exchange then carries the earlier timestamps and is read back before the first.
\<close>

theorem clock_back_counterexample:
  "chat_with_transcript (roles_env 2 30 40) initial_state ''q1'' ''s1'' one_chunk None =
        (Inr (general_final_response ''human''),
         insert_turns (roles_env 2 30 40) initial_state ''s1'' ''q1''
           (general_final_response ''human''))
   \<and> chat_with_transcript (roles_env 2 10 20)
        (insert_turns (roles_env 2 30 40) initial_state ''s1'' ''q1''
           (general_final_response ''human''))
        ''q2'' ''s1'' one_chunk None =
        (Inr (general_final_response ''human system human''),
         insert_turns (roles_env 2 10 20)
           (insert_turns (roles_env 2 30 40) initial_state ''s1'' ''q1''
              (general_final_response ''human''))
           ''s1'' ''q2'' (general_final_response ''human system human''))
   \<and> map (\<lambda>m. (msg_role m, msg_content m))
        (chat_docs
          (insert_turns (roles_env 2 10 20)
            (insert_turns (roles_env 2 30 40) initial_state ''s1'' ''q1''
               (general_final_response ''human''))
            ''s1'' ''q2'' (general_final_response ''human system human'')) ''s1'') =
        [(''human'', ''q2''), (''assistant'', general_final_response ''human system human''),
         (''human'', ''q1''), (''assistant'', general_final_response ''human'')]
   \<and> [(''human'', ''q2''), (''assistant'', general_final_response ''human system human''),
         (''human'', ''q1''), (''assistant'', general_final_response ''human'')]
      \<noteq> [(''human'', ''q1''), (''assistant'', general_final_response ''human''),
         (''human'', ''q2''), (''assistant'', general_final_response ''human system human'')]"
proof -
  let ?e1 = "roles_env 2 30 40" and ?e2 = "roles_env 2 10 20"
  let ?a1 = "general_final_response ''human''"
  let ?a2 = "general_final_response ''human system human''"
  let ?st1 = "insert_turns ?e1 initial_state ''s1'' ''q1'' ?a1"
  let ?st2 = "insert_turns ?e2 ?st1 ''s1'' ''q2'' ?a2"
  have hist0: "chat_history initial_state ''s1'' = []"
    by (simp add: chat_history_def chat_docs_def initial_state_def)
  have c1: "chat_with_transcript ?e1 initial_state ''q1'' ''s1'' one_chunk None = (Inr ?a1, ?st1)"
    by (simp add: chat_with_transcript_def roles_env_llm roles_env_search is_out_of_context_def
          SIMILARITY_THRESHOLD_def fallback_answer_def general_messages_def hist0)
  have hist1: "chat_history ?st1 ''s1'' = [HumanMessage ''q1'', SystemMessage ?a1]"
    by (simp add: chat_history_def chat_docs_def insert_turns_def initial_state_def roles_env_def)
  have c2: "chat_with_transcript ?e2 ?st1 ''q2'' ''s1'' one_chunk None = (Inr ?a2, ?st2)"
    by (simp add: chat_with_transcript_def roles_env_llm roles_env_search is_out_of_context_def
          SIMILARITY_THRESHOLD_def fallback_answer_def general_messages_def hist1)
  have docs: "map (\<lambda>m. (msg_role m, msg_content m)) (chat_docs ?st2 ''s1'') =
        [(''human'', ''q2''), (''assistant'', ?a2), (''human'', ''q1''), (''assistant'', ?a1)]"
    by (simp add: chat_docs_def insert_turns_def initial_state_def roles_env_def)
  have ne: "[(''human'', ''q2''), (''assistant'', ?a2), (''human'', ''q1''), (''assistant'', ?a1)]
      \<noteq> [(''human'', ''q1''), (''assistant'', ?a1), (''human'', ''q2''), (''assistant'', ?a2)]"
    by simp
  from c1 c2 docs ne show ?thesis by blast
qed

end
